theory Spec2Isabelle
  imports Main
begin

section \<open>The worker message envelope (post-message.ts)\<close>

text \<open>
  \<^verbatim>\<open>export type PostMessageRequest = 'start' | 'stop' | 'busy' | 'idle';\<close>
  A union of four string literals: a datatype with one constructor per literal, and the
  literal each constructor stands for.
\<close>

datatype PostMessageRequest = Start | Stop | Busy | Idle

fun request_literal :: "PostMessageRequest \<Rightarrow> string" where
  "request_literal Start = ''start''"
| "request_literal Stop = ''stop''"
| "request_literal Busy = ''busy''"
| "request_literal Idle = ''idle''"

text \<open>
  \<^verbatim>\<open>export type PostMessageDataRequest = { user: UserOption; governanceId: string }
     & Pick<Environment, 'satelliteId' | 'localIdentityCanisterId'>;\<close>
  \<open>UserOption\<close> and \<open>Environment\<close> are imported from modules that are not part of the
  source at hand, so the types of the three fields they decide are parameters.
\<close>

record ('user, 'sat, 'lid) PostMessageDataRequest =
  user :: 'user
  governanceId :: string
  satelliteId :: 'sat
  localIdentityCanisterId :: 'lid

text \<open>
  \<^verbatim>\<open>export interface PostMessage<T extends ...> {
       msg: PostMessageRequest | PostMessageResponse;
       data?: T;
     }\<close>
  \<open>PostMessageResponse\<close> and \<open>PostMessageDataResponse\<close> are both the TypeScript type
  \<open>object\<close>, which the type parameter \<open>'obj\<close> stands for. The member \<open>data\<close> is
  optional: \<open>None\<close> is the absent payload.
\<close>

record ('obj, 'T) PostMessage =
  msg :: "PostMessageRequest + 'obj"
  data :: "'T option"


section \<open>The build configuration (vite.config.ts)\<close>

subsection \<open>JavaScript values, exceptions and effects\<close>

text \<open>
  The values \<open>JSON.parse\<close> builds and the code passes on. A number is an IEEE double,
  which the code never computes with: \<open>Double m e\<close> is \<open>m * 2 ^ e\<close>. \<open>JNative\<close> is a
  built-in function or object, by its name, that a property read can reach through a
  prototype. The property list of \<open>JObject\<close> is in the order \<open>Object.entries\<close>
  enumerates it; an object has no two properties of one name.
\<close>

datatype js_number = Double int int | MinusZero | PosInfinity | NegInfinity | NaN

datatype jsval =
    JUndefined
  | JNull
  | JBool bool
  | JNumber js_number
  | JString string
  | JArray "jsval list"
  | JObject "(string \<times> jsval) list"
  | JNative string

datatype js_error = SystemError string | SyntaxError string | TypeError

datatype 'a outcome = Returns 'a | Throws js_error

datatype event =
    ReadFile string
  | ConsoleWarn string
  | ConsoleLog "string \<rightharpoonup> jsval"

text \<open>A computation: how it ends, and the events it caused, oldest first.\<close>

type_synonym 'a io = "'a outcome \<times> event list"

definition io_return :: "'a \<Rightarrow> 'a io" where
  "io_return x = (Returns x, [])"

definition io_of :: "'a outcome \<Rightarrow> 'a io" where
  "io_of r = (r, [])"

definition emit :: "event \<Rightarrow> unit io" where
  "emit ev = (Returns (), [ev])"

definition io_bind :: "'a io \<Rightarrow> ('a \<Rightarrow> 'b io) \<Rightarrow> 'b io" where
  "io_bind m f =
     (case m of
        (Throws e, t) \<Rightarrow> (Throws e, t)
      | (Returns x, t) \<Rightarrow> (case f x of (r, t') \<Rightarrow> (r, t @ t')))"

text \<open>\<^verbatim>\<open>try { m } catch (e) { h(e) }\<close>\<close>

definition try_catch :: "'a io \<Rightarrow> (js_error \<Rightarrow> 'a io) \<Rightarrow> 'a io" where
  "try_catch m h =
     (case m of
        (Throws e, t) \<Rightarrow> (case h e of (r, t') \<Rightarrow> (r, t @ t'))
      | (Returns x, t) \<Rightarrow> (Returns x, t))"

text \<open>
  Everything the module takes from outside: the environment variable, the working
  directory, Node's \<open>path.join\<close>, \<open>fs.readFileSync\<close> and \<open>JSON.parse\<close>, the string
  conversion of a thrown value in a template literal, the properties a value has
  beyond those \<open>JSON.parse\<close> created (prototype members, \<open>length\<close>), Vite's
  \<open>loadEnv\<close>, \<open>JSON.stringify\<close> and the \<open>version\<close> read from package.json.

  A string is the sequence of its UTF-8 bytes (a lone surrogate encoded like any code
  point), so two strings are equal exactly when JavaScript's are. What JavaScript does
  with the characters of a string is the runtime's as well: \<open>toUpperCase\<close> is
  \<open>String.prototype.toUpperCase\<close>, with all of Unicode's case mapping (it turns \<open>ss\<close>
  and the sharp s alike into \<open>SS\<close>), and \<open>code_units\<close> cuts a string into its UTF-16
  code units, each a string of its own, which are the indexed properties of a string.
\<close>

record runtime =
  DFX_NETWORK :: "string option"
  cwd :: string
  path_join :: "string list \<Rightarrow> string"
  readFileSync :: "string \<Rightarrow> string outcome"
  JSON_parse :: "string \<Rightarrow> jsval outcome"
  error_text :: "js_error \<Rightarrow> string"
  builtin :: "jsval \<Rightarrow> string \<Rightarrow> jsval"
  loadEnv :: "string \<Rightarrow> string \<Rightarrow> (string \<rightharpoonup> jsval)"
  JSON_stringify :: "jsval \<Rightarrow> jsval"
  version :: jsval
  toUpperCase :: "string \<Rightarrow> string"
  code_units :: "string \<Rightarrow> string list"

definition fs_readFileSync :: "runtime \<Rightarrow> string \<Rightarrow> string io" where
  "fs_readFileSync rt file = (readFileSync rt file, [ReadFile file])"

text \<open>
  \<^verbatim>\<open>JSON.parse(readFileSync(file, 'utf-8'))\<close>, the expression both functions
  start their \<open>try\<close> block with.
\<close>

definition read_json :: "runtime \<Rightarrow> string \<Rightarrow> jsval io" where
  "read_json rt file = io_bind (fs_readFileSync rt file) (\<lambda>text. io_of (JSON_parse rt text))"

definition console_warn :: "string \<Rightarrow> unit io" where
  "console_warn s = emit (ConsoleWarn s)"

definition console_log :: "(string \<rightharpoonup> jsval) \<Rightarrow> unit io" where
  "console_log obj = emit (ConsoleLog obj)"

text \<open>The warnings and the file reads of a trace.\<close>

fun is_warning :: "event \<Rightarrow> bool" where
  "is_warning (ConsoleWarn s) = True"
| "is_warning ev = False"

fun is_read :: "event \<Rightarrow> bool" where
  "is_read (ReadFile p) = True"
| "is_read ev = False"

definition warnings :: "event list \<Rightarrow> event list" where
  "warnings t = filter is_warning t"

definition reads :: "event list \<Rightarrow> event list" where
  "reads t = filter is_read t"

subsection \<open>Strings\<close>

text \<open>
  \<^verbatim>\<open>s.replaceAll(a, b)\<close> and \<^verbatim>\<open>s.replaceAll(a, '')\<close> for ASCII characters
  \<open>a\<close> and \<open>b\<close>. In UTF-8 an ASCII character is one byte that is part of no other
  character, so the replacement goes byte by byte.
\<close>

definition replaceAll_char :: "char \<Rightarrow> char \<Rightarrow> string \<Rightarrow> string" where
  "replaceAll_char a b s = map (\<lambda>c. if c = a then b else c) s"

definition removeAll_char :: "char \<Rightarrow> string \<Rightarrow> string" where
  "removeAll_char a s = filter (\<lambda>c. c \<noteq> a) s"

fun show_nat :: "nat \<Rightarrow> string" where
  "show_nat n =
     (if n < 10 then [''0123456789'' ! n]
      else show_nat (n div 10) @ [''0123456789'' ! (n mod 10)])"

definition index_keys :: "nat \<Rightarrow> string list" where
  "index_keys n = map show_nat [0..<n]"

subsection \<open>Property access\<close>

text \<open>
  \<open>null\<close> and \<open>undefined\<close> have no properties: \<open>Object.entries\<close> and every
  property read throw a TypeError on them. The own enumerable properties of any other
  value, as \<open>Object.entries\<close> lists them, are those of an object, the indices of an
  array and the code units of a string; a number, a boolean or a built-in has none.
\<close>

definition nullish :: "jsval \<Rightarrow> bool" where
  "nullish v = (v = JUndefined \<or> v = JNull)"

fun own_entries :: "runtime \<Rightarrow> jsval \<Rightarrow> (string \<times> jsval) list" where
  "own_entries rt (JObject ps) = ps"
| "own_entries rt (JArray xs) = zip (index_keys (length xs)) xs"
| "own_entries rt (JString s) =
     zip (index_keys (length (code_units rt s))) (map JString (code_units rt s))"
| "own_entries rt v = []"

definition Object_entries :: "runtime \<Rightarrow> jsval \<Rightarrow> (string \<times> jsval) list outcome" where
  "Object_entries rt v =
     (if nullish v then Throws TypeError else Returns (own_entries rt v))"

text \<open>
  \<^verbatim>\<open>v[k]\<close> and \<^verbatim>\<open>v.k\<close>: an own property first, then whatever the runtime finds
  beyond (\<open>JUndefined\<close> when nothing).
\<close>

definition property :: "runtime \<Rightarrow> jsval \<Rightarrow> string \<Rightarrow> jsval" where
  "property rt v k =
     (case map_of (own_entries rt v) k of Some x \<Rightarrow> x | None \<Rightarrow> builtin rt v k)"

definition js_get :: "runtime \<Rightarrow> jsval \<Rightarrow> string \<Rightarrow> jsval outcome" where
  "js_get rt v k =
     (if nullish v then Throws TypeError else Returns (property rt v k))"

text \<open>\<^verbatim>\<open>xs.includes(x)\<close>\<close>

definition array_includes :: "'a list \<Rightarrow> 'a \<Rightarrow> bool" where
  "array_includes xs x = (x \<in> set xs)"

text \<open>\<^verbatim>\<open>xs.reduce(f, acc)\<close> with a callback that may throw.\<close>

fun reduce :: "('acc \<Rightarrow> 'x \<Rightarrow> 'acc outcome) \<Rightarrow> 'x list \<Rightarrow> 'acc \<Rightarrow> 'acc outcome" where
  "reduce f [] acc = Returns acc"
| "reduce f (x # xs) acc =
     (case f acc x of Throws e \<Rightarrow> Throws e | Returns acc' \<Rightarrow> reduce f xs acc')"

subsection \<open>The module\<close>

text \<open>\<^verbatim>\<open>const network = process.env.DFX_NETWORK ?? 'local';\<close>\<close>

definition network :: "runtime \<Rightarrow> string" where
  "network rt = (case DFX_NETWORK rt of None \<Rightarrow> ''local'' | Some n \<Rightarrow> n)"

text \<open>\<^verbatim>\<open>`${prefix ?? ''}${name}_CANISTER_ID`\<close>\<close>

definition canister_key :: "string option \<Rightarrow> string \<Rightarrow> string" where
  "canister_key prefix name =
     (case prefix of None \<Rightarrow> [] | Some p \<Rightarrow> p) @ name @ ''_CANISTER_ID''"

definition canisterIdsJsonFile :: "runtime \<Rightarrow> string" where
  "canisterIdsJsonFile rt =
     (if array_includes [''ic'', ''staging''] (network rt)
      then path_join rt [cwd rt, ''canister_ids.json'']
      else path_join rt [cwd rt, ''.dfx'', ''local'', ''canister_ids.json''])"

text \<open>The callback of the \<open>reduce\<close> in \<open>readCanisterIds\<close>.\<close>

definition readCanisterIds_step ::
  "runtime \<Rightarrow> string option \<Rightarrow> (string \<rightharpoonup> jsval) \<Rightarrow> string \<times> jsval
     \<Rightarrow> (string \<rightharpoonup> jsval) outcome" where
  "readCanisterIds_step rt prefix acc current =
     (case current of (canisterName, canisterDetails) \<Rightarrow>
        (case js_get rt canisterDetails (network rt) of
           Throws e \<Rightarrow> Throws e
         | Returns v \<Rightarrow>
             Returns (acc(canister_key prefix (toUpperCase rt canisterName) \<mapsto> v))))"

text \<open>The \<open>try\<close> block of \<open>readCanisterIds\<close>.\<close>

definition readCanisterIds_try ::
  "runtime \<Rightarrow> string option \<Rightarrow> string \<Rightarrow> (string \<rightharpoonup> jsval) io" where
  "readCanisterIds_try rt prefix file =
     io_bind (read_json rt file) (\<lambda>config.
     io_bind (io_of (Object_entries rt config)) (\<lambda>entries.
     io_of (reduce (readCanisterIds_step rt prefix) entries Map.empty)))"

text \<open>Its \<open>catch\<close> block.\<close>

definition readCanisterIds_catch ::
  "runtime \<Rightarrow> string \<Rightarrow> js_error \<Rightarrow> (string \<rightharpoonup> jsval) io" where
  "readCanisterIds_catch rt file e =
     io_bind (console_warn (''Could not get canister ID from '' @ file @ '': '' @ error_text rt e))
       (\<lambda>_. io_return Map.empty)"

definition readCanisterIds :: "runtime \<Rightarrow> string option \<Rightarrow> (string \<rightharpoonup> jsval) io" where
  "readCanisterIds rt prefix =
     (let file = canisterIdsJsonFile rt
      in try_catch (readCanisterIds_try rt prefix file) (readCanisterIds_catch rt file))"

definition dfxJsonFile :: "runtime \<Rightarrow> string" where
  "dfxJsonFile rt = path_join rt [cwd rt, ''dfx.json'']"

text \<open>The key of a canister of dfx.json.\<close>

definition dfx_key :: "runtime \<Rightarrow> string option \<Rightarrow> string \<Rightarrow> string" where
  "dfx_key rt prefix canisterName =
     canister_key prefix
       (toUpperCase rt
          (removeAll_char (CHR 0x27) (replaceAll_char CHR ''-'' CHR ''_'' canisterName)))"

text \<open>The callback of the \<open>reduce\<close> in \<open>dfxCanisterIds\<close>.\<close>

definition dfxCanisterIds_step ::
  "runtime \<Rightarrow> string option \<Rightarrow> (string \<rightharpoonup> jsval) \<Rightarrow> string \<times> jsval
     \<Rightarrow> (string \<rightharpoonup> jsval) outcome" where
  "dfxCanisterIds_step rt prefix acc current =
     (case current of (canisterName, canisterDetails) \<Rightarrow>
        (case js_get rt canisterDetails ''remote'' of
           Throws e \<Rightarrow> Throws e
         | Returns remote \<Rightarrow>
             if remote \<noteq> JUndefined then
               (case js_get rt remote ''id'' of
                  Throws e \<Rightarrow> Throws e
                | Returns ident \<Rightarrow>
                    (case js_get rt ident ''local'' of
                       Throws e \<Rightarrow> Throws e
                     | Returns v \<Rightarrow> Returns (acc(dfx_key rt prefix canisterName \<mapsto> v))))
             else Returns acc))"

definition dfxCanisterIds_try ::
  "runtime \<Rightarrow> string option \<Rightarrow> string \<Rightarrow> (string \<rightharpoonup> jsval) io" where
  "dfxCanisterIds_try rt prefix file =
     io_bind (read_json rt file) (\<lambda>parsed.
     io_bind (io_of (js_get rt parsed ''canisters'')) (\<lambda>canisters.
     io_bind (io_of (Object_entries rt canisters)) (\<lambda>entries.
     io_of (reduce (dfxCanisterIds_step rt prefix) entries Map.empty))))"

definition dfxCanisterIds_catch ::
  "runtime \<Rightarrow> string \<Rightarrow> js_error \<Rightarrow> (string \<rightharpoonup> jsval) io" where
  "dfxCanisterIds_catch rt file e =
     io_bind (console_warn (''Could not get canisters ID from '' @ file @ '': '' @ error_text rt e))
       (\<lambda>_. io_return Map.empty)"

definition dfxCanisterIds :: "runtime \<Rightarrow> string option \<Rightarrow> (string \<rightharpoonup> jsval) io" where
  "dfxCanisterIds rt prefix =
     (if array_includes [''ic'', ''staging''] (network rt) then io_return Map.empty
      else
        (let file = dfxJsonFile rt
         in try_catch (dfxCanisterIds_try rt prefix file) (dfxCanisterIds_catch rt file)))"

text \<open>
  The static part of the configuration (\<open>plugins\<close>, \<open>build\<close>, \<open>optimizeDeps\<close>,
  \<open>worker\<close>) is a constant of the module, spread unchanged into the result.
\<close>

datatype static_config = StaticConfig

text \<open>The returned \<open>UserConfig\<close>: the static part and the three entries of \<open>define\<close>.\<close>

record UserConfig =
  static_part :: static_config
  define_process_env :: "string \<rightharpoonup> jsval"
  define_VITE_APP_VERSION :: jsval
  define_VITE_DFX_NETWORK :: jsval

text \<open>
  \<^verbatim>\<open>network === 'ic' ? 'production' : network === 'staging' ? 'staging' : 'development'\<close>
\<close>

definition env_mode :: "runtime \<Rightarrow> string" where
  "env_mode rt =
     (if network rt = ''ic'' then ''production''
      else if network rt = ''staging'' then ''staging'' else ''development'')"

text \<open>
  The callback given to \<open>defineConfig\<close>. It takes \<open>process.env\<close> as it is when Vite
  calls it and returns the configuration together with the new \<open>process.env\<close>. An
  object spread \<open>{...a, ...b}\<close> is \<open>a ++ b\<close>: the later binding of a key wins.
\<close>

definition defineConfig ::
  "runtime \<Rightarrow> (string \<rightharpoonup> jsval) \<Rightarrow> (UserConfig \<times> (string \<rightharpoonup> jsval)) io" where
  "defineConfig rt process_env =
     io_bind (readCanisterIds rt (Some ''VITE_'')) (\<lambda>r1.
     io_bind (dfxCanisterIds rt (Some ''VITE_'')) (\<lambda>d1.
     let process_env' = process_env ++ loadEnv rt (env_mode rt) (cwd rt) ++ r1 ++ d1 in
     io_bind (readCanisterIds rt (Some ''VITE_'')) (\<lambda>r2.
     io_bind (dfxCanisterIds rt (Some ''VITE_'')) (\<lambda>d2.
     io_bind (console_log (process_env' ++ loadEnv rt (env_mode rt) (cwd rt) ++ r2 ++ d2)) (\<lambda>_.
     io_bind (readCanisterIds rt None) (\<lambda>r3.
     io_bind (dfxCanisterIds rt None) (\<lambda>d3.
     io_return
       (\<lparr>static_part = StaticConfig,
         define_process_env = r3 ++ d3 ++ [''DFX_NETWORK'' \<mapsto> JString (network rt)],
         define_VITE_APP_VERSION = JSON_stringify rt (version rt),
         define_VITE_DFX_NETWORK = JSON_stringify rt (JString (network rt))\<rparr>,
        process_env'))))))))"

subsection \<open>A concrete runtime\<close>

text \<open>
  A runtime over a table of files (path and contents) and a table of what \<open>JSON.parse\<close>
  makes of each contents. A path outside the first table does not exist; a text outside
  the second is not JSON. Paths are joined with a slash, no value has a property beyond
  its own, and \<open>loadEnv\<close> finds no .env file. \<open>JSON.stringify\<close> is given for what
  this module passes to it: a string without characters to escape, which it puts in
  double quotes, and \<open>undefined\<close>, which it returns. The files of this runtime hold
  ASCII names only, and on ASCII strings its \<open>toUpperCase\<close> and \<open>code_units\<close> are
  JavaScript's: \<open>a\<close>..\<open>z\<close> become \<open>A\<close>..\<open>Z\<close>, and every character is one code unit.
\<close>

definition upper_char :: "char \<Rightarrow> char" where
  "upper_char c =
     (case map_of (zip ''abcdefghijklmnopqrstuvwxyz'' ''ABCDEFGHIJKLMNOPQRSTUVWXYZ'') c of
        Some u \<Rightarrow> u
      | None \<Rightarrow> c)"

definition ascii_toUpperCase :: "string \<Rightarrow> string" where
  "ascii_toUpperCase s = map upper_char s"

definition ascii_code_units :: "string \<Rightarrow> string list" where
  "ascii_code_units s = map (\<lambda>c. [c]) s"

fun join_slash :: "string list \<Rightarrow> string" where
  "join_slash [] = ''.''"
| "join_slash [p] = p"
| "join_slash (p # ps) = p @ ''/'' @ join_slash ps"

fun stringify_plain :: "jsval \<Rightarrow> jsval" where
  "stringify_plain (JString s) = JString ([CHR 0x22] @ s @ [CHR 0x22])"
| "stringify_plain v = JUndefined"

fun error_string :: "js_error \<Rightarrow> string" where
  "error_string (SystemError m) = ''Error: '' @ m"
| "error_string (SyntaxError m) = ''SyntaxError: '' @ m"
| "error_string TypeError = ''TypeError''"

definition node ::
  "string option \<Rightarrow> (string \<times> string) list \<Rightarrow> (string \<times> jsval) list \<Rightarrow> runtime" where
  "node net files parses =
     \<lparr>DFX_NETWORK = net,
      cwd = ''/app'',
      path_join = join_slash,
      readFileSync = (\<lambda>p. case map_of files p of
                          Some text \<Rightarrow> Returns text
                        | None \<Rightarrow> Throws (SystemError ''ENOENT'')),
      JSON_parse = (\<lambda>text. case map_of parses text of
                          Some v \<Rightarrow> Returns v
                        | None \<Rightarrow> Throws (SyntaxError ''Unexpected token'')),
      error_text = error_string,
      builtin = (\<lambda>v k. JUndefined),
      loadEnv = (\<lambda>m d. Map.empty),
      JSON_stringify = stringify_plain,
      version = JString ''0.0.1'',
      toUpperCase = ascii_toUpperCase,
      code_units = ascii_code_units\<rparr>"

definition local_canister_ids :: string where
  "local_canister_ids = ''/app/.dfx/local/canister_ids.json''"

definition dfx_json :: string where
  "dfx_json = ''/app/dfx.json''"

text \<open>No configuration file at all.\<close>

definition rt_no_files :: runtime where
  "rt_no_files = node None [] []"

text \<open>Deploying to the \<open>ic\<close> network, again with no file.\<close>

definition rt_ic :: runtime where
  "rt_ic = node (Some ''ic'') [] []"

text \<open>Two canisters with their local identifiers.\<close>

definition two_canisters_text :: string where
  "two_canisters_text =
     ''{\"backend\":{\"local\":\"bkyz2-fmaaa-aaaaa-qaaaq-cai\"},\"frontend\":{\"local\":\"bd3sg-teaaa-aaaaa-qaaba-cai\"}}''"

definition two_canisters :: jsval where
  "two_canisters =
     JObject [(''backend'', JObject [(''local'', JString ''bkyz2-fmaaa-aaaaa-qaaaq-cai'')]),
              (''frontend'', JObject [(''local'', JString ''bd3sg-teaaa-aaaaa-qaaba-cai'')])]"

definition rt_two_canisters :: runtime where
  "rt_two_canisters =
     node None [(local_canister_ids, two_canisters_text)] [(two_canisters_text, two_canisters)]"

text \<open>The same file, with \<open>DFX_NETWORK\<close> set to a network the file does not know.\<close>

definition rt_testnet :: runtime where
  "rt_testnet =
     node (Some ''testnet'') [(local_canister_ids, two_canisters_text)]
       [(two_canisters_text, two_canisters)]"

text \<open>Two canister names that differ in case only.\<close>

definition case_clash_text :: string where
  "case_clash_text = ''{\"a\":{\"local\":\"x\"},\"A\":{\"local\":\"y\"}}''"

definition case_clash :: jsval where
  "case_clash =
     JObject [(''a'', JObject [(''local'', JString ''x'')]),
              (''A'', JObject [(''local'', JString ''y'')])]"

definition rt_case_clash :: runtime where
  "rt_case_clash =
     node None [(local_canister_ids, case_clash_text)] [(case_clash_text, case_clash)]"

text \<open>The same two names, the first canister without an identifier for any network.\<close>

definition no_entry_clash_text :: string where
  "no_entry_clash_text = ''{\"a\":{},\"A\":{\"local\":\"x\"}}''"

definition no_entry_clash :: jsval where
  "no_entry_clash = JObject [(''a'', JObject []), (''A'', JObject [(''local'', JString ''x'')])]"

definition rt_no_entry_clash :: runtime where
  "rt_no_entry_clash =
     node None [(local_canister_ids, no_entry_clash_text)]
       [(no_entry_clash_text, no_entry_clash)]"

text \<open>A dfx.json with one remote canister and one canister of the project's own.\<close>

definition one_remote_text :: string where
  "one_remote_text =
     ''{\"canisters\":{\"internet-identity\":{\"remote\":{\"id\":{\"ic\":\"rdmx6-jaaaa-aaaaa-aaadq-cai\",\"local\":\"be2us-64aaa-aaaaa-qaabq-cai\"}}},\"frontend\":{\"type\":\"assets\"}}}''"

definition one_remote :: jsval where
  "one_remote =
     JObject [(''canisters'',
       JObject [(''internet-identity'',
                  JObject [(''remote'',
                    JObject [(''id'',
                      JObject [(''ic'', JString ''rdmx6-jaaaa-aaaaa-aaadq-cai''),
                               (''local'', JString ''be2us-64aaa-aaaaa-qaabq-cai'')])])]),
                (''frontend'', JObject [(''type'', JString ''assets'')])])]"

definition rt_one_remote :: runtime where
  "rt_one_remote = node None [(dfx_json, one_remote_text)] [(one_remote_text, one_remote)]"

text \<open>Two remote canisters whose names differ in a hyphen against an underscore.\<close>

definition hyphen_clash_text :: string where
  "hyphen_clash_text =
     ''{\"canisters\":{\"a-b\":{\"remote\":{\"id\":{\"ic\":\"p\",\"local\":\"x\"}}},\"a_b\":{\"remote\":{\"id\":{\"ic\":\"q\",\"local\":\"y\"}}}}}''"

definition hyphen_clash :: jsval where
  "hyphen_clash =
     JObject [(''canisters'',
       JObject [(''a-b'',
                  JObject [(''remote'',
                    JObject [(''id'', JObject [(''ic'', JString ''p''), (''local'', JString ''x'')])])]),
                (''a_b'',
                  JObject [(''remote'',
                    JObject [(''id'', JObject [(''ic'', JString ''q''), (''local'', JString ''y'')])])])])]"

definition rt_hyphen_clash :: runtime where
  "rt_hyphen_clash = node None [(dfx_json, hyphen_clash_text)] [(hyphen_clash_text, hyphen_clash)]"

text \<open>
  Files that parse and then fail inside the \<open>reduce\<close>, after a first canister was
  accepted: a \<open>null\<close> details object, and a \<open>remote\<close> without \<open>id\<close>.
\<close>

definition late_null_text :: string where
  "late_null_text = ''{\"a\":{\"local\":\"x\"},\"b\":null}''"

definition late_null :: jsval where
  "late_null = JObject [(''a'', JObject [(''local'', JString ''x'')]), (''b'', JNull)]"

definition late_no_id_text :: string where
  "late_no_id_text =
     ''{\"canisters\":{\"a\":{\"remote\":{\"id\":{\"ic\":\"p\",\"local\":\"x\"}}},\"b\":{\"remote\":{}}}}''"

definition late_no_id :: jsval where
  "late_no_id =
     JObject [(''canisters'',
       JObject [(''a'',
                  JObject [(''remote'',
                    JObject [(''id'', JObject [(''ic'', JString ''p''), (''local'', JString ''x'')])])]),
                (''b'', JObject [(''remote'', JObject [])])])]"

definition rt_late_failure :: runtime where
  "rt_late_failure =
     node None [(local_canister_ids, late_null_text), (dfx_json, late_no_id_text)]
       [(late_null_text, late_null), (late_no_id_text, late_no_id)]"

text \<open>
  A canister named with the sharp s (the UTF-8 bytes C3 9F) beside a canister \<open>ss\<close>, on
  a runtime whose \<open>toUpperCase\<close> knows, beyond ASCII, the one character these names
  need: the sharp s becomes \<open>SS\<close>.
\<close>

definition sharp_s :: string where
  "sharp_s = [CHR 0xC3, CHR 0x9F]"

definition sharp_s_toUpperCase :: "string \<Rightarrow> string" where
  "sharp_s_toUpperCase s = (if s = sharp_s then ''SS'' else ascii_toUpperCase s)"

definition sharp_s_clash_text :: string where
  "sharp_s_clash_text =
     ''{\"'' @ sharp_s @ ''\":{\"local\":\"x\"},\"ss\":{\"local\":\"y\"}}''"

definition sharp_s_clash :: jsval where
  "sharp_s_clash =
     JObject [(sharp_s, JObject [(''local'', JString ''x'')]),
              (''ss'', JObject [(''local'', JString ''y'')])]"

definition rt_sharp_s :: runtime where
  "rt_sharp_s =
     (node None [(local_canister_ids, sharp_s_clash_text)] [(sharp_s_clash_text, sharp_s_clash)])
       \<lparr>toUpperCase := sharp_s_toUpperCase\<rparr>"

text \<open>A project with both files: the two canisters and the remote one.\<close>

definition rt_project :: runtime where
  "rt_project =
     node None [(local_canister_ids, two_canisters_text), (dfx_json, one_remote_text)]
       [(two_canisters_text, two_canisters), (one_remote_text, one_remote)]"

subsection \<open>Notions the statements use\<close>

text \<open>The value \<open>dfxCanisterIds\<close> binds for a canister: \<open>canisterDetails.remote.id.local\<close>.\<close>

definition has_remote :: "runtime \<Rightarrow> jsval \<Rightarrow> bool" where
  "has_remote rt canisterDetails = (property rt canisterDetails ''remote'' \<noteq> JUndefined)"

definition remote_id_local :: "runtime \<Rightarrow> jsval \<Rightarrow> jsval" where
  "remote_id_local rt canisterDetails =
     property rt (property rt (property rt canisterDetails ''remote'') ''id'') ''local''"

text \<open>
  The declared shape of a canister of dfx.json, as far as the code reads it: the details
  are an object, and a \<open>remote\<close> that is there is an object with an \<open>id\<close> object.
\<close>

definition Details_shape :: "runtime \<Rightarrow> jsval \<Rightarrow> bool" where
  "Details_shape rt canisterDetails =
     (\<not> nullish canisterDetails \<and>
      (has_remote rt canisterDetails \<longrightarrow>
         \<not> nullish (property rt canisterDetails ''remote'') \<and>
         \<not> nullish (property rt (property rt canisterDetails ''remote'') ''id'')))"

section \<open>Properties\<close>

subsection \<open>Computations and traces\<close>

lemma snd_io_of: "snd (io_of r) = []"
  by (simp add: io_of_def)

lemma fst_io_of: "fst (io_of r) = r"
  by (simp add: io_of_def)

lemma io_bind_trace_of: "snd (io_bind m (\<lambda>x. io_of (g x))) = snd m"
  by (simp add: io_bind_def io_of_def split: prod.splits outcome.splits)

lemma io_bind_fst_Throws: "fst m = Throws e \<Longrightarrow> fst (io_bind m f) = Throws e"
  by (cases m) (simp add: io_bind_def)

lemma io_bind_fst_Returns: "fst m = Returns x \<Longrightarrow> fst (io_bind m f) = fst (f x)"
  by (cases m) (simp add: io_bind_def split: prod.splits)

lemma io_bind_snd_Returns: "fst m = Returns x \<Longrightarrow> snd (io_bind m f) = snd m @ snd (f x)"
  by (cases m) (simp add: io_bind_def split: prod.splits)

lemma io_bind_snd_Throws: "fst m = Throws e \<Longrightarrow> snd (io_bind m f) = snd m"
  by (cases m) (simp add: io_bind_def)

lemma try_catch_Returns: "fst m = Returns r \<Longrightarrow> try_catch m h = m"
  by (cases m) (simp add: try_catch_def)

lemma try_catch_Throws: "fst m = Throws e \<Longrightarrow> try_catch m h = (fst (h e), snd m @ snd (h e))"
  by (cases m) (simp add: try_catch_def split: prod.splits)

lemma read_json_trace: "snd (read_json rt file) = [ReadFile file]"
  by (simp add: read_json_def io_bind_trace_of fs_readFileSync_def)

text \<open>Whatever happens in a \<open>try\<close> block, the file was read once and nothing else shows.\<close>

lemma readCanisterIds_try_trace: "snd (readCanisterIds_try rt prefix file) = [ReadFile file]"
proof (cases "fst (read_json rt file)")
  case (Throws e)
  then show ?thesis
    by (simp add: readCanisterIds_try_def io_bind_snd_Throws read_json_trace)
next
  case (Returns config)
  then show ?thesis
    by (simp add: readCanisterIds_try_def io_bind_snd_Returns read_json_trace io_bind_trace_of
        snd_io_of)
qed

lemma dfxCanisterIds_try_trace: "snd (dfxCanisterIds_try rt prefix file) = [ReadFile file]"
proof (cases "fst (read_json rt file)")
  case (Throws e)
  then show ?thesis
    by (simp add: dfxCanisterIds_try_def io_bind_snd_Throws read_json_trace)
next
  case (Returns parsed)
  have "snd (io_bind (io_of (js_get rt parsed ''canisters'')) (\<lambda>canisters.
     io_bind (io_of (Object_entries rt canisters)) (\<lambda>entries.
     io_of (reduce (dfxCanisterIds_step rt prefix) entries Map.empty)))) = []"
    by (cases "js_get rt parsed ''canisters''")
      (simp_all add: io_bind_snd_Returns io_bind_snd_Throws fst_io_of snd_io_of io_bind_trace_of)
  with Returns show ?thesis
    by (simp add: dfxCanisterIds_try_def io_bind_snd_Returns read_json_trace)
qed

subsection \<open>The two ways a call ends\<close>

lemma readCanisterIds_Returns:
  "fst (readCanisterIds_try rt prefix (canisterIdsJsonFile rt)) = Returns r \<Longrightarrow>
   readCanisterIds rt prefix = (Returns r, [ReadFile (canisterIdsJsonFile rt)])"
  using readCanisterIds_try_trace [of rt prefix "canisterIdsJsonFile rt"]
  by (simp add: readCanisterIds_def Let_def try_catch_Returns prod_eq_iff)

lemma readCanisterIds_Throws:
  "fst (readCanisterIds_try rt prefix (canisterIdsJsonFile rt)) = Throws e \<Longrightarrow>
   readCanisterIds rt prefix =
     (Returns Map.empty,
      [ReadFile (canisterIdsJsonFile rt),
       ConsoleWarn (''Could not get canister ID from '' @ canisterIdsJsonFile rt @ '': '' @
                    error_text rt e)])"
  using readCanisterIds_try_trace [of rt prefix "canisterIdsJsonFile rt"]
  by (simp add: readCanisterIds_def Let_def try_catch_Throws readCanisterIds_catch_def
      console_warn_def emit_def io_bind_def io_return_def)

lemma dfxCanisterIds_guard:
  "array_includes [''ic'', ''staging''] (network rt) \<Longrightarrow>
   dfxCanisterIds rt prefix = (Returns Map.empty, [])"
  by (simp add: dfxCanisterIds_def io_return_def)

lemma dfxCanisterIds_Returns:
  "\<not> array_includes [''ic'', ''staging''] (network rt) \<Longrightarrow>
   fst (dfxCanisterIds_try rt prefix (dfxJsonFile rt)) = Returns r \<Longrightarrow>
   dfxCanisterIds rt prefix = (Returns r, [ReadFile (dfxJsonFile rt)])"
  using dfxCanisterIds_try_trace [of rt prefix "dfxJsonFile rt"]
  by (simp add: dfxCanisterIds_def Let_def try_catch_Returns prod_eq_iff)

lemma dfxCanisterIds_Throws:
  "\<not> array_includes [''ic'', ''staging''] (network rt) \<Longrightarrow>
   fst (dfxCanisterIds_try rt prefix (dfxJsonFile rt)) = Throws e \<Longrightarrow>
   dfxCanisterIds rt prefix =
     (Returns Map.empty,
      [ReadFile (dfxJsonFile rt),
       ConsoleWarn (''Could not get canisters ID from '' @ dfxJsonFile rt @ '': '' @
                    error_text rt e)])"
  using dfxCanisterIds_try_trace [of rt prefix "dfxJsonFile rt"]
  by (simp add: dfxCanisterIds_def Let_def try_catch_Throws dfxCanisterIds_catch_def
      console_warn_def emit_def io_bind_def io_return_def)

lemma readCanisterIds_returns: "\<exists>r t. readCanisterIds rt prefix = (Returns r, t)"
  by (cases "fst (readCanisterIds_try rt prefix (canisterIdsJsonFile rt))")
    (simp_all add: readCanisterIds_Returns readCanisterIds_Throws)

lemma dfxCanisterIds_returns: "\<exists>r t. dfxCanisterIds rt prefix = (Returns r, t)"
proof (cases "array_includes [''ic'', ''staging''] (network rt)")
  case True
  then show ?thesis by (simp add: dfxCanisterIds_guard)
next
  case False
  then show ?thesis
    by (cases "fst (dfxCanisterIds_try rt prefix (dfxJsonFile rt))")
      (simp_all add: dfxCanisterIds_Returns dfxCanisterIds_Throws)
qed

lemma read_json_Throws_try:
  "fst (read_json rt file) = Throws e \<Longrightarrow> fst (readCanisterIds_try rt prefix file) = Throws e"
  by (simp add: readCanisterIds_try_def io_bind_fst_Throws)

lemma read_json_Throws_dfx_try:
  "fst (read_json rt file) = Throws e \<Longrightarrow> fst (dfxCanisterIds_try rt prefix file) = Throws e"
  by (simp add: dfxCanisterIds_try_def io_bind_fst_Throws)

text \<open>The only file a call reads is its own, and \<open>dfxCanisterIds\<close> reads past its guard only.\<close>

lemma readCanisterIds_reads:
  "ReadFile p \<in> set (snd (readCanisterIds rt prefix)) \<Longrightarrow> p = canisterIdsJsonFile rt"
  by (cases "fst (readCanisterIds_try rt prefix (canisterIdsJsonFile rt))")
    (auto simp: readCanisterIds_Returns readCanisterIds_Throws)

lemma dfxCanisterIds_reads:
  "ReadFile p \<in> set (snd (dfxCanisterIds rt prefix)) \<Longrightarrow>
   p = dfxJsonFile rt \<and> \<not> array_includes [''ic'', ''staging''] (network rt)"
proof (cases "array_includes [''ic'', ''staging''] (network rt)")
  case True
  assume "ReadFile p \<in> set (snd (dfxCanisterIds rt prefix))"
  with True show ?thesis by (simp add: dfxCanisterIds_guard)
next
  case False
  assume "ReadFile p \<in> set (snd (dfxCanisterIds rt prefix))"
  with False show ?thesis
    by (cases "fst (dfxCanisterIds_try rt prefix (dfxJsonFile rt))")
      (auto simp: dfxCanisterIds_Returns dfxCanisterIds_Throws)
qed

subsection \<open>What a successful \<open>reduce\<close> builds\<close>

lemma canister_key_eq: "canister_key prefix a = canister_key prefix b \<longleftrightarrow> a = b"
  by (simp add: canister_key_def)

lemma reduce_fold:
  "(\<And>acc x. x \<in> set xs \<Longrightarrow> f acc x = Returns (upd x acc)) \<Longrightarrow>
   reduce f xs acc = Returns (fold upd xs acc)"
  by (induction xs arbitrary: acc) simp_all

text \<open>
  A fold that adds a binding per element, or none, is the map of the bindings with the
  last one of a key in front.
\<close>

lemma fold_bindings:
  "fold (\<lambda>x m. case b x of None \<Rightarrow> m | Some kv \<Rightarrow> m(fst kv \<mapsto> snd kv)) xs acc =
   acc ++ map_of (rev (List.map_filter b xs))"
proof (induction xs arbitrary: acc)
  case Nil
  show ?case by simp
next
  case (Cons x xs)
  show ?case
  proof (cases "b x")
    case None
    then show ?thesis by (simp add: Cons.IH)
  next
    case (Some kv)
    obtain k v where kv: "kv = (k, v)" by (cases kv)
    have "acc(k \<mapsto> v) ++ map_of (rev (List.map_filter b xs)) =
          acc ++ map_of (rev (List.map_filter b xs) @ [(k, v)])"
      by (rule ext) (simp add: map_add_def split: option.splits)
    moreover have
      "fold (\<lambda>x m. case b x of None \<Rightarrow> m | Some kv \<Rightarrow> m(fst kv \<mapsto> snd kv)) (x # xs) acc =
          acc(k \<mapsto> v) ++ map_of (rev (List.map_filter b xs))"
      using Some kv by (simp add: Cons.IH del: fun_upd_apply)
    moreover have "List.map_filter b (x # xs) = (k, v) # List.map_filter b xs"
      using Some kv by simp
    ultimately show ?thesis by (simp del: map_of_append)
  qed
qed

lemma map_of_rev_last:
  "kvs = xs @ (k, v) # ys \<Longrightarrow> k \<notin> fst ` set ys \<Longrightarrow> map_of (rev kvs) k = Some v"
proof -
  assume kvs: "kvs = xs @ (k, v) # ys" and fresh: "k \<notin> fst ` set ys"
  from fresh have "map_of (rev ys) k = None"
    by (simp add: map_of_eq_None_iff)
  then show ?thesis
    by (simp add: kvs map_add_def)
qed

lemma dom_map_of_rev: "dom (map_of (rev kvs)) = fst ` set kvs"
  by (simp add: dom_map_of_conv_image_fst)

lemma readCanisterIds_step_binding:
  "\<not> nullish (snd x) \<Longrightarrow>
   readCanisterIds_step rt prefix acc x =
     Returns (case Some (canister_key prefix (toUpperCase rt (fst x)),
                         property rt (snd x) (network rt)) of
                None \<Rightarrow> acc | Some kv \<Rightarrow> acc(fst kv \<mapsto> snd kv))"
  by (cases x) (simp add: readCanisterIds_step_def js_get_def)

lemma readCanisterIds_try_result:
  assumes "fst (read_json rt file) = Returns config"
    and "Object_entries rt config = Returns es"
    and "\<forall>x\<in>set es. \<not> nullish (snd x)"
  shows "fst (readCanisterIds_try rt prefix file) =
     Returns (map_of (rev (map (\<lambda>x. (canister_key prefix (toUpperCase rt (fst x)),
                                      property rt (snd x) (network rt))) es)))"
proof -
  let ?b = "\<lambda>x. Some (canister_key prefix (toUpperCase rt (fst x)), property rt (snd x) (network rt))"
  have "reduce (readCanisterIds_step rt prefix) es Map.empty =
        Returns (fold (\<lambda>x m. case ?b x of None \<Rightarrow> m | Some kv \<Rightarrow> m(fst kv \<mapsto> snd kv))
                   es Map.empty)"
    using assms(3) by (intro reduce_fold readCanisterIds_step_binding) simp
  also have "\<dots> = Returns (map_of (rev (List.map_filter ?b es)))"
    by (simp only: fold_bindings) simp
  finally have "reduce (readCanisterIds_step rt prefix) es Map.empty =
      Returns (map_of (rev (map (\<lambda>x. (canister_key prefix (toUpperCase rt (fst x)),
                                      property rt (snd x) (network rt))) es)))"
    by (simp add: List.map_filter_def comp_def)
  with assms(1,2) show ?thesis
    by (simp add: readCanisterIds_try_def io_bind_fst_Returns fst_io_of)
qed

lemma readCanisterIds_result:
  assumes "fst (read_json rt (canisterIdsJsonFile rt)) = Returns config"
    and "Object_entries rt config = Returns es"
    and "\<forall>(n, d)\<in>set es. \<not> nullish d"
  shows "fst (readCanisterIds rt prefix) =
     Returns (map_of (rev (map (\<lambda>x. (canister_key prefix (toUpperCase rt (fst x)),
                                      property rt (snd x) (network rt))) es)))"
proof -
  from assms(3) have "\<forall>x\<in>set es. \<not> nullish (snd x)" by auto
  from readCanisterIds_try_result [OF assms(1,2) this, of prefix] show ?thesis
    by (simp add: readCanisterIds_Returns)
qed

lemma dfxCanisterIds_step_binding:
  "Details_shape rt (snd x) \<Longrightarrow>
   dfxCanisterIds_step rt prefix acc x =
     Returns (case (if has_remote rt (snd x)
                    then Some (dfx_key rt prefix (fst x), remote_id_local rt (snd x)) else None) of
                None \<Rightarrow> acc | Some kv \<Rightarrow> acc(fst kv \<mapsto> snd kv))"
  by (cases x)
    (simp add: dfxCanisterIds_step_def js_get_def Details_shape_def has_remote_def
      remote_id_local_def)

lemma dfxCanisterIds_try_result:
  assumes "fst (read_json rt file) = Returns parsed"
    and "js_get rt parsed ''canisters'' = Returns canisters"
    and "Object_entries rt canisters = Returns es"
    and "\<forall>x\<in>set es. Details_shape rt (snd x)"
  shows "fst (dfxCanisterIds_try rt prefix file) =
     Returns (map_of (rev (map (\<lambda>x. (dfx_key rt prefix (fst x), remote_id_local rt (snd x)))
                            (filter (\<lambda>x. has_remote rt (snd x)) es))))"
proof -
  let ?b = "\<lambda>x. if has_remote rt (snd x)
                 then Some (dfx_key rt prefix (fst x), remote_id_local rt (snd x)) else None"
  have "reduce (dfxCanisterIds_step rt prefix) es Map.empty =
        Returns (fold (\<lambda>x m. case ?b x of None \<Rightarrow> m | Some kv \<Rightarrow> m(fst kv \<mapsto> snd kv))
                   es Map.empty)"
    using assms(4) by (intro reduce_fold dfxCanisterIds_step_binding) simp
  also have "\<dots> = Returns (map_of (rev (List.map_filter ?b es)))"
    by (simp only: fold_bindings) simp
  also have "List.map_filter ?b es =
      map (\<lambda>x. (dfx_key rt prefix (fst x), remote_id_local rt (snd x)))
        (filter (\<lambda>x. has_remote rt (snd x)) es)"
    by (induction es) simp_all
  finally show ?thesis
    using assms(1,2,3)
    by (simp add: dfxCanisterIds_try_def io_bind_fst_Returns fst_io_of)
qed

subsection \<open>Running the concrete runtimes\<close>

lemmas run_defs =
  node_def local_canister_ids_def dfx_json_def
  readCanisterIds_def readCanisterIds_try_def readCanisterIds_catch_def readCanisterIds_step_def
  dfxCanisterIds_def dfxCanisterIds_try_def dfxCanisterIds_catch_def dfxCanisterIds_step_def
  canisterIdsJsonFile_def dfxJsonFile_def network_def array_includes_def
  read_json_def fs_readFileSync_def console_warn_def emit_def
  io_bind_def io_of_def io_return_def try_catch_def
  Object_entries_def js_get_def property_def nullish_def
  canister_key_def dfx_key_def ascii_toUpperCase_def upper_char_def replaceAll_char_def
  removeAll_char_def warnings_def reads_def Let_def

lemma rt_no_files_readCanisterIds:
  "readCanisterIds rt_no_files prefix =
     (Returns Map.empty,
      [ReadFile local_canister_ids,
       ConsoleWarn
         ''Could not get canister ID from /app/.dfx/local/canister_ids.json: Error: ENOENT''])"
  by (simp add: rt_no_files_def run_defs)

lemma rt_no_files_dfxCanisterIds:
  "dfxCanisterIds rt_no_files prefix =
     (Returns Map.empty,
      [ReadFile dfx_json,
       ConsoleWarn ''Could not get canisters ID from /app/dfx.json: Error: ENOENT''])"
  by (simp add: rt_no_files_def run_defs)

lemma rt_no_files_read_json: "fst (read_json rt_no_files p) = Throws (SystemError ''ENOENT'')"
  by (simp add: rt_no_files_def run_defs)

lemma rt_late_failure_read_try:
  "fst (readCanisterIds_try rt_late_failure prefix (canisterIdsJsonFile rt_late_failure)) =
     Throws TypeError"
  by (simp add: rt_late_failure_def late_null_def late_null_text_def late_no_id_text_def run_defs)

lemma rt_late_failure_dfx_try:
  "fst (dfxCanisterIds_try rt_late_failure prefix (dfxJsonFile rt_late_failure)) =
     Throws TypeError"
  by (simp add: rt_late_failure_def late_no_id_def late_null_text_def late_no_id_text_def run_defs)

lemma rt_two_canisters_read_json:
  "fst (read_json rt_two_canisters (canisterIdsJsonFile rt_two_canisters)) = Returns two_canisters"
  by (simp add: rt_two_canisters_def two_canisters_text_def run_defs)

lemma rt_testnet_read_json:
  "fst (read_json rt_testnet (canisterIdsJsonFile rt_testnet)) = Returns two_canisters"
  by (simp add: rt_testnet_def two_canisters_text_def run_defs)

lemma two_canisters_entries:
  "Object_entries rt two_canisters =
     Returns [(''backend'', JObject [(''local'', JString ''bkyz2-fmaaa-aaaaa-qaaaq-cai'')]),
              (''frontend'', JObject [(''local'', JString ''bd3sg-teaaa-aaaaa-qaaba-cai'')])]"
  by (simp add: two_canisters_def Object_entries_def nullish_def)

lemma rt_sharp_s_read_json:
  "fst (read_json rt_sharp_s (canisterIdsJsonFile rt_sharp_s)) = Returns sharp_s_clash"
  by (simp add: rt_sharp_s_def sharp_s_clash_text_def sharp_s_def run_defs)

lemma sharp_s_clash_entries:
  "Object_entries rt sharp_s_clash =
     Returns [(sharp_s, JObject [(''local'', JString ''x'')]),
              (''ss'', JObject [(''local'', JString ''y'')])]"
  by (simp add: sharp_s_clash_def Object_entries_def nullish_def)

lemma rt_sharp_s_upper:
  "toUpperCase rt_sharp_s sharp_s = ''SS''" "toUpperCase rt_sharp_s ''ss'' = ''SS''"
  by (simp_all add: rt_sharp_s_def node_def sharp_s_toUpperCase_def sharp_s_def
      ascii_toUpperCase_def upper_char_def)

lemma rt_one_remote_network: "\<not> array_includes [''ic'', ''staging''] (network rt_one_remote)"
  by (simp add: rt_one_remote_def node_def network_def array_includes_def)

lemma rt_one_remote_read_json:
  "fst (read_json rt_one_remote (dfxJsonFile rt_one_remote)) = Returns one_remote"
  by (simp add: rt_one_remote_def one_remote_text_def run_defs)

lemma rt_project_readCanisterIds:
  "fst (readCanisterIds rt_project prefix) =
     Returns [canister_key prefix ''BACKEND'' \<mapsto> JString ''bkyz2-fmaaa-aaaaa-qaaaq-cai'',
              canister_key prefix ''FRONTEND'' \<mapsto> JString ''bd3sg-teaaa-aaaaa-qaaba-cai'']"
  by (simp add: rt_project_def two_canisters_def two_canisters_text_def one_remote_text_def
      node_def local_canister_ids_def dfx_json_def readCanisterIds_def readCanisterIds_try_def
      readCanisterIds_catch_def readCanisterIds_step_def canisterIdsJsonFile_def network_def
      array_includes_def read_json_def fs_readFileSync_def console_warn_def emit_def
      io_bind_def io_of_def io_return_def try_catch_def Object_entries_def js_get_def
      property_def nullish_def ascii_toUpperCase_def upper_char_def Let_def)

lemma rt_project_dfxCanisterIds:
  "fst (dfxCanisterIds rt_project prefix) =
     Returns [canister_key prefix ''INTERNET_IDENTITY'' \<mapsto>
                JString ''be2us-64aaa-aaaaa-qaabq-cai'']"
  by (simp add: rt_project_def one_remote_def two_canisters_text_def one_remote_text_def
      node_def local_canister_ids_def dfx_json_def dfxCanisterIds_def dfxCanisterIds_try_def
      dfxCanisterIds_catch_def dfxCanisterIds_step_def dfxJsonFile_def network_def
      array_includes_def read_json_def fs_readFileSync_def console_warn_def emit_def
      io_bind_def io_of_def io_return_def try_catch_def Object_entries_def js_get_def
      property_def nullish_def dfx_key_def ascii_toUpperCase_def upper_char_def replaceAll_char_def
      removeAll_char_def Let_def)

section \<open>The claims\<close>

subsection \<open>The message envelope\<close>

text \<open>
  Claim C3, as amended. The envelope type does not tie the payload to the message kind:
  \<open>data\<close> is optional whatever \<open>msg\<close> is, so for every kind and for every payload, and
  for no payload, there is an envelope with exactly that kind and that \<open>data\<close>.
\<close>

theorem PostMessage_payload_optional:
  "\<forall>(k :: PostMessageRequest + 'obj) (d :: 'T option).
     \<exists>m :: ('obj, 'T) PostMessage. msg m = k \<and> data m = d"
proof (intro allI)
  fix k :: "PostMessageRequest + 'obj" and d :: "'T option"
  have "msg \<lparr>msg = k, data = d\<rparr> = k \<and> data \<lparr>msg = k, data = d\<rparr> = d" by simp
  then show "\<exists>m :: ('obj, 'T) PostMessage. msg m = k \<and> data m = d" by blast
qed

text \<open>
  Claim C3 as stated fails: it asks for message kinds that do not require a payload and
  on which the type forbids one. No choice of the kinds that require a payload which
  leaves a kind out is respected by every envelope, since the kind left out has an
  envelope with a payload.
\<close>

theorem PostMessage_payload_unconstrained:
  "\<not> (\<exists>requires :: PostMessageRequest + 'obj \<Rightarrow> bool.
        (\<exists>k. \<not> requires k) \<and>
        (\<forall>m :: ('obj, 'T) PostMessage. data m \<noteq> None \<longrightarrow> requires (msg m)))"
proof
  assume "\<exists>requires :: PostMessageRequest + 'obj \<Rightarrow> bool.
        (\<exists>k. \<not> requires k) \<and>
        (\<forall>m :: ('obj, 'T) PostMessage. data m \<noteq> None \<longrightarrow> requires (msg m))"
  then obtain requires :: "PostMessageRequest + 'obj \<Rightarrow> bool" and k
    where k: "\<not> requires k"
      and all: "\<forall>m :: ('obj, 'T) PostMessage. data m \<noteq> None \<longrightarrow> requires (msg m)"
    by blast
  obtain p :: 'T where True by simp
  have "data \<lparr>msg = k, data = Some p\<rparr> \<noteq> None" by simp
  with all have "requires (msg \<lparr>msg = k, data = Some p\<rparr>)" by blast
  with k show False by simp
qed

text \<open>
  Claim C4. The request tag takes exactly the four values \<open>start\<close>, \<open>stop\<close>, \<open>busy\<close> and
  \<open>idle\<close>, all different, while any object at all is a response tag.
\<close>

theorem PostMessageRequest_four_values:
  "range request_literal = {''start'', ''stop'', ''busy'', ''idle''} \<and>
   inj request_literal \<and>
   (\<forall>x :: 'obj. \<exists>m :: ('obj, 'T) PostMessage. msg m = Inr x)"
proof (intro conjI allI)
  have univ: "(UNIV :: PostMessageRequest set) = {Start, Stop, Busy, Idle}"
    by (auto intro: PostMessageRequest.exhaust)
  show "range request_literal = {''start'', ''stop'', ''busy'', ''idle''}"
    by (simp add: univ)
  show "inj request_literal"
  proof (rule injI)
    fix a b assume "request_literal a = request_literal b"
    then show "a = b" by (cases a; cases b) simp_all
  qed
  fix x :: 'obj
  have "msg \<lparr>msg = Inr x, data = (None :: 'T option)\<rparr> = Inr x" by simp
  then show "\<exists>m :: ('obj, 'T) PostMessage. msg m = Inr x" by blast
qed

text \<open>
  Claim C5. A request payload is its four members \<open>user\<close>, \<open>governanceId\<close>,
  \<open>satelliteId\<close> and \<open>localIdentityCanisterId\<close> and nothing more: the four determine it,
  and any four values make one.
\<close>

theorem PostMessageDataRequest_four_fields:
  fixes r :: "('user, 'sat, 'lid) PostMessageDataRequest"
  shows "r = \<lparr>user = user r, governanceId = governanceId r, satelliteId = satelliteId r,
               localIdentityCanisterId = localIdentityCanisterId r\<rparr> \<and>
    (\<forall>(u :: 'user) g (s :: 'sat) (l :: 'lid).
        \<exists>q :: ('user, 'sat, 'lid) PostMessageDataRequest.
          user q = u \<and> governanceId q = g \<and> satelliteId q = s \<and> localIdentityCanisterId q = l)"
proof (intro conjI allI)
  show "r = \<lparr>user = user r, governanceId = governanceId r, satelliteId = satelliteId r,
               localIdentityCanisterId = localIdentityCanisterId r\<rparr>"
    by simp
  fix u :: 'user and g and s :: 'sat and l :: 'lid
  let ?q = "\<lparr>user = u, governanceId = g, satelliteId = s, localIdentityCanisterId = l\<rparr>"
  have "user ?q = u \<and> governanceId ?q = g \<and> satelliteId ?q = s \<and> localIdentityCanisterId ?q = l"
    by simp
  then show "\<exists>q :: ('user, 'sat, 'lid) PostMessageDataRequest.
          user q = u \<and> governanceId q = g \<and> satelliteId q = s \<and> localIdentityCanisterId q = l"
    by blast
qed

subsection \<open>Failure of a configuration file\<close>

text \<open>
  Claim C1. For every path: when a call of \<open>readCanisterIds\<close> reads the file at that path
  and reading or parsing it fails, the call returns the empty mapping and its trace
  holds exactly one warning; and likewise for a call of \<open>dfxCanisterIds\<close>.
\<close>

theorem failure_returns_empty_with_one_warning:
  "(ReadFile p \<in> set (snd (readCanisterIds rt prefix)) \<and> fst (read_json rt p) = Throws e \<longrightarrow>
      fst (readCanisterIds rt prefix) = Returns Map.empty \<and>
      length (warnings (snd (readCanisterIds rt prefix))) = 1) \<and>
   (ReadFile q \<in> set (snd (dfxCanisterIds rt prefix')) \<and> fst (read_json rt q) = Throws e' \<longrightarrow>
      fst (dfxCanisterIds rt prefix') = Returns Map.empty \<and>
      length (warnings (snd (dfxCanisterIds rt prefix'))) = 1)"
proof (intro conjI impI; elim conjE)
  assume rd: "ReadFile p \<in> set (snd (readCanisterIds rt prefix))"
    and fails: "fst (read_json rt p) = Throws e"
  from rd have "p = canisterIdsJsonFile rt" by (rule readCanisterIds_reads)
  with fails have "fst (readCanisterIds_try rt prefix (canisterIdsJsonFile rt)) = Throws e"
    by (simp add: read_json_Throws_try)
  then show "fst (readCanisterIds rt prefix) = Returns Map.empty"
    and "length (warnings (snd (readCanisterIds rt prefix))) = 1"
    by (simp_all add: readCanisterIds_Throws warnings_def)
next
  assume rd: "ReadFile q \<in> set (snd (dfxCanisterIds rt prefix'))"
    and fails: "fst (read_json rt q) = Throws e'"
  have q: "q = dfxJsonFile rt" and net: "\<not> array_includes [''ic'', ''staging''] (network rt)"
    using dfxCanisterIds_reads [OF rd] by blast+
  from q fails have "fst (dfxCanisterIds_try rt prefix' (dfxJsonFile rt)) = Throws e'"
    by (simp add: read_json_Throws_dfx_try)
  with net show "fst (dfxCanisterIds rt prefix') = Returns Map.empty"
    and "length (warnings (snd (dfxCanisterIds rt prefix'))) = 1"
    by (simp_all add: dfxCanisterIds_Throws warnings_def)
qed

text \<open>
  With neither file on disk, each of the two calls reads its file, fails with ENOENT,
  returns the empty mapping and warns once.
\<close>

theorem failure_returns_empty_with_one_warning_witness:
  "ReadFile local_canister_ids \<in> set (snd (readCanisterIds rt_no_files None)) \<and>
   fst (read_json rt_no_files local_canister_ids) = Throws (SystemError ''ENOENT'') \<and>
   fst (readCanisterIds rt_no_files None) = Returns Map.empty \<and>
   length (warnings (snd (readCanisterIds rt_no_files None))) = 1 \<and>
   ReadFile dfx_json \<in> set (snd (dfxCanisterIds rt_no_files None)) \<and>
   fst (read_json rt_no_files dfx_json) = Throws (SystemError ''ENOENT'') \<and>
   fst (dfxCanisterIds rt_no_files None) = Returns Map.empty \<and>
   length (warnings (snd (dfxCanisterIds rt_no_files None))) = 1"
proof -
  have "ReadFile local_canister_ids \<in> set (snd (readCanisterIds rt_no_files None))"
    and "ReadFile dfx_json \<in> set (snd (dfxCanisterIds rt_no_files None))"
    by (simp_all add: rt_no_files_readCanisterIds rt_no_files_dfxCanisterIds)
  then show ?thesis
    using failure_returns_empty_with_one_warning
      [of local_canister_ids rt_no_files None "SystemError ''ENOENT''"
          dfx_json None "SystemError ''ENOENT''"]
    by (simp add: rt_no_files_read_json)
qed

text \<open>
  Claim C6. Every call of \<open>readCanisterIds\<close> and of \<open>dfxCanisterIds\<close> returns, whatever
  the runtime holds: no exception leaves it. It reads a file at most once. And when its
  \<open>try\<close> block throws, at the read, at the parse or anywhere in the \<open>reduce\<close>, the
  result is the empty record, not what the \<open>reduce\<close> had gathered.
\<close>

theorem no_exception_no_retry_no_partial_mapping:
  "(\<exists>r t. readCanisterIds rt prefix = (Returns r, t) \<and> length (reads t) = 1 \<and>
      (\<forall>e. fst (readCanisterIds_try rt prefix (canisterIdsJsonFile rt)) = Throws e \<longrightarrow>
         r = Map.empty)) \<and>
   (\<exists>r t. dfxCanisterIds rt prefix = (Returns r, t) \<and> length (reads t) \<le> 1 \<and>
      (\<forall>e. fst (dfxCanisterIds_try rt prefix (dfxJsonFile rt)) = Throws e \<longrightarrow>
         r = Map.empty))"
proof
  show "\<exists>r t. readCanisterIds rt prefix = (Returns r, t) \<and> length (reads t) = 1 \<and>
      (\<forall>e. fst (readCanisterIds_try rt prefix (canisterIdsJsonFile rt)) = Throws e \<longrightarrow>
         r = Map.empty)"
    by (cases "fst (readCanisterIds_try rt prefix (canisterIdsJsonFile rt))")
      (simp_all add: readCanisterIds_Returns readCanisterIds_Throws reads_def)
  show "\<exists>r t. dfxCanisterIds rt prefix = (Returns r, t) \<and> length (reads t) \<le> 1 \<and>
      (\<forall>e. fst (dfxCanisterIds_try rt prefix (dfxJsonFile rt)) = Throws e \<longrightarrow>
         r = Map.empty)"
  proof (cases "array_includes [''ic'', ''staging''] (network rt)")
    case True
    then show ?thesis by (simp add: dfxCanisterIds_guard reads_def)
  next
    case False
    then show ?thesis
      by (cases "fst (dfxCanisterIds_try rt prefix (dfxJsonFile rt))")
        (simp_all add: dfxCanisterIds_Returns dfxCanisterIds_Throws reads_def)
  qed
qed

text \<open>
  Two files that fail late: the second canister of \<open>canister_ids.json\<close> is \<open>null\<close>, the
  second of dfx.json has a \<open>remote\<close> without \<open>id\<close>. Both \<open>try\<close> blocks throw a
  TypeError after the first canister went in, and both calls return the empty record.
\<close>

theorem no_exception_no_retry_no_partial_mapping_witness:
  "fst (readCanisterIds_try rt_late_failure None (canisterIdsJsonFile rt_late_failure)) =
     Throws TypeError \<and>
   fst (readCanisterIds rt_late_failure None) = Returns Map.empty \<and>
   length (reads (snd (readCanisterIds rt_late_failure None))) = 1 \<and>
   fst (dfxCanisterIds_try rt_late_failure None (dfxJsonFile rt_late_failure)) =
     Throws TypeError \<and>
   fst (dfxCanisterIds rt_late_failure None) = Returns Map.empty \<and>
   length (reads (snd (dfxCanisterIds rt_late_failure None))) \<le> 1"
  using no_exception_no_retry_no_partial_mapping [of rt_late_failure None]
  by (auto simp: rt_late_failure_read_try rt_late_failure_dfx_try)

subsection \<open>The guard of \<open>dfxCanisterIds\<close>\<close>

text \<open>
  Claim C8. For every prefix, when the network is \<open>ic\<close> or \<open>staging\<close>,
  \<open>dfxCanisterIds\<close> returns the empty mapping and its trace is empty: it reads no file
  and warns of nothing.
\<close>

theorem dfxCanisterIds_skips_dfx_json:
  "array_includes [''ic'', ''staging''] (network rt) \<Longrightarrow>
   dfxCanisterIds rt prefix = (Returns Map.empty, [])"
  by (rule dfxCanisterIds_guard)

text \<open>With \<open>DFX_NETWORK=ic\<close> and no dfx.json on disk.\<close>

theorem dfxCanisterIds_skips_dfx_json_witness:
  "array_includes [''ic'', ''staging''] (network rt_ic) \<and>
   dfxCanisterIds rt_ic (Some ''VITE_'') = (Returns Map.empty, [])"
proof -
  have "array_includes [''ic'', ''staging''] (network rt_ic)"
    by (simp add: rt_ic_def node_def network_def array_includes_def)
  then show ?thesis
    using dfxCanisterIds_skips_dfx_json [of rt_ic "Some ''VITE_''"] by simp
qed

subsection \<open>The record of \<open>readCanisterIds\<close>\<close>

text \<open>
  Claim C2, as amended. Let \<open>canister_ids.json\<close> parse to a mapping whose canister details
  are not \<open>null\<close>, as its declared type \<open>Record<string, Details>\<close> says. Then
  \<open>readCanisterIds\<close> returns a record whose keys are exactly the prefix (empty when
  absent), the canister name in upper case and \<open>_CANISTER_ID\<close>, for the canister names
  of the file. The key of a canister is bound to that canister's entry for the current
  network whenever no later canister of the file has a name with the same upper-case
  form (the last such canister decides otherwise). Upper case is what the runtime's
  \<open>toUpperCase\<close> makes of a name, whatever the characters of the name.
\<close>

theorem readCanisterIds_record:
  assumes "fst (read_json rt (canisterIdsJsonFile rt)) = Returns config"
    and "Object_entries rt config = Returns es"
    and "\<forall>(n, d)\<in>set es. \<not> nullish d"
  shows "\<exists>r. fst (readCanisterIds rt prefix) = Returns r \<and>
      dom r = (\<lambda>(n, d). canister_key prefix (toUpperCase rt n)) ` set es \<and>
      (\<forall>xs n d ys. es = xs @ (n, d) # ys \<and> toUpperCase rt n \<notin> toUpperCase rt ` fst ` set ys \<longrightarrow>
         r (canister_key prefix (toUpperCase rt n)) = Some (property rt d (network rt)))"
proof -
  let ?g = "\<lambda>x. (canister_key prefix (toUpperCase rt (fst x)), property rt (snd x) (network rt))"
  let ?r = "map_of (rev (map ?g es))"
  have "fst (readCanisterIds rt prefix) = Returns ?r"
    using assms by (rule readCanisterIds_result)
  moreover have "dom ?r = (\<lambda>(n, d). canister_key prefix (toUpperCase rt n)) ` set es"
    by (force simp: dom_map_of_rev image_image)
  moreover have "?r (canister_key prefix (toUpperCase rt n)) = Some (property rt d (network rt))"
    if "es = xs @ (n, d) # ys" and "toUpperCase rt n \<notin> toUpperCase rt ` fst ` set ys" for xs n d ys
  proof (rule map_of_rev_last)
    show "map ?g es =
        map ?g xs @ (canister_key prefix (toUpperCase rt n), property rt d (network rt)) # map ?g ys"
      using that(1) by simp
    show "canister_key prefix (toUpperCase rt n) \<notin> fst ` set (map ?g ys)"
      using that(2) by (auto simp: canister_key_eq image_iff)
  qed
  ultimately show ?thesis by blast
qed

text \<open>
  The file of two canisters, read with the prefix \<open>VITE_\<close> on the local network: two
  keys, each bound to the local identifier of its canister. And the file of the sharp s
  and \<open>ss\<close>, two names with the upper-case form \<open>SS\<close>: the one key \<open>SS_CANISTER_ID\<close>,
  bound to the entry of \<open>ss\<close>, the later of the two.
\<close>

theorem readCanisterIds_record_witness:
  "(\<exists>r. fst (readCanisterIds rt_two_canisters (Some ''VITE_'')) = Returns r \<and>
     dom r = {''VITE_BACKEND_CANISTER_ID'', ''VITE_FRONTEND_CANISTER_ID''} \<and>
     r ''VITE_BACKEND_CANISTER_ID'' = Some (JString ''bkyz2-fmaaa-aaaaa-qaaaq-cai'') \<and>
     r ''VITE_FRONTEND_CANISTER_ID'' = Some (JString ''bd3sg-teaaa-aaaaa-qaaba-cai'')) \<and>
   (\<exists>r. fst (readCanisterIds rt_sharp_s None) = Returns r \<and>
     dom r = {''SS_CANISTER_ID''} \<and>
     r ''SS_CANISTER_ID'' = Some (JString ''y''))"
proof
  let ?b = "JObject [(''local'', JString ''bkyz2-fmaaa-aaaaa-qaaaq-cai'')]"
  let ?f = "JObject [(''local'', JString ''bd3sg-teaaa-aaaaa-qaaba-cai'')]"
  let ?es = "[(''backend'', ?b), (''frontend'', ?f)]"
  have shape: "\<forall>(n, d)\<in>set ?es. \<not> nullish d"
    by (simp add: nullish_def)
  from readCanisterIds_record
      [OF rt_two_canisters_read_json two_canisters_entries shape, of "Some ''VITE_''"]
  obtain r where all: "fst (readCanisterIds rt_two_canisters (Some ''VITE_'')) = Returns r \<and>
      dom r = (\<lambda>(n, d). canister_key (Some ''VITE_'') (toUpperCase rt_two_canisters n)) `
                set ?es \<and>
      (\<forall>xs n d ys. ?es = xs @ (n, d) # ys \<and>
        toUpperCase rt_two_canisters n \<notin> toUpperCase rt_two_canisters ` fst ` set ys \<longrightarrow>
        r (canister_key (Some ''VITE_'') (toUpperCase rt_two_canisters n)) =
          Some (property rt_two_canisters d (network rt_two_canisters)))" ..
  note r = all [THEN conjunct1]
  note keys = all [THEN conjunct2, THEN conjunct1]
  note bound = all [THEN conjunct2, THEN conjunct2, rule_format]
  have up: "toUpperCase rt_two_canisters ''backend'' = ''BACKEND''"
    "toUpperCase rt_two_canisters ''frontend'' = ''FRONTEND''"
    by (simp_all add: rt_two_canisters_def node_def ascii_toUpperCase_def upper_char_def)
  have net: "network rt_two_canisters = ''local''"
    by (simp add: rt_two_canisters_def node_def network_def)
  have pb: "property rt_two_canisters ?b ''local'' = JString ''bkyz2-fmaaa-aaaaa-qaaaq-cai''"
    and pf: "property rt_two_canisters ?f ''local'' = JString ''bd3sg-teaaa-aaaaa-qaaba-cai''"
    by (simp_all add: property_def)
  have kb: "canister_key (Some ''VITE_'') ''BACKEND'' = ''VITE_BACKEND_CANISTER_ID''"
    and kf: "canister_key (Some ''VITE_'') ''FRONTEND'' = ''VITE_FRONTEND_CANISTER_ID''"
    by (simp_all add: canister_key_def)
  have b: "r ''VITE_BACKEND_CANISTER_ID'' = Some (JString ''bkyz2-fmaaa-aaaaa-qaaaq-cai'')"
    using bound [of "[]" "''backend''" ?b "[(''frontend'', ?f)]"]
    by (simp add: up kb net pb)
  have f: "r ''VITE_FRONTEND_CANISTER_ID'' = Some (JString ''bd3sg-teaaa-aaaaa-qaaba-cai'')"
    using bound [of "[(''backend'', ?b)]" "''frontend''" ?f "[]"]
    by (simp add: up kf net pf)
  have d: "dom r = {''VITE_BACKEND_CANISTER_ID'', ''VITE_FRONTEND_CANISTER_ID''}"
    using keys by (simp add: up kb kf)
  from r d b f
  show "\<exists>r. fst (readCanisterIds rt_two_canisters (Some ''VITE_'')) = Returns r \<and>
     dom r = {''VITE_BACKEND_CANISTER_ID'', ''VITE_FRONTEND_CANISTER_ID''} \<and>
     r ''VITE_BACKEND_CANISTER_ID'' = Some (JString ''bkyz2-fmaaa-aaaaa-qaaaq-cai'') \<and>
     r ''VITE_FRONTEND_CANISTER_ID'' = Some (JString ''bd3sg-teaaa-aaaaa-qaaba-cai'')"
    by (intro exI conjI)
next
  let ?x = "JObject [(''local'', JString ''x'')]"
  let ?y = "JObject [(''local'', JString ''y'')]"
  let ?es = "[(sharp_s, ?x), (''ss'', ?y)]"
  have shape: "\<forall>(n, d)\<in>set ?es. \<not> nullish d"
    by (simp add: nullish_def)
  from readCanisterIds_record [OF rt_sharp_s_read_json sharp_s_clash_entries shape, of None]
  obtain r where all: "fst (readCanisterIds rt_sharp_s None) = Returns r \<and>
      dom r = (\<lambda>(n, d). canister_key None (toUpperCase rt_sharp_s n)) ` set ?es \<and>
      (\<forall>xs n d ys. ?es = xs @ (n, d) # ys \<and>
        toUpperCase rt_sharp_s n \<notin> toUpperCase rt_sharp_s ` fst ` set ys \<longrightarrow>
        r (canister_key None (toUpperCase rt_sharp_s n)) =
          Some (property rt_sharp_s d (network rt_sharp_s)))" ..
  note r = all [THEN conjunct1]
  note keys = all [THEN conjunct2, THEN conjunct1]
  note bound = all [THEN conjunct2, THEN conjunct2, rule_format]
  have net: "network rt_sharp_s = ''local''"
    by (simp add: rt_sharp_s_def node_def network_def)
  have py: "property rt_sharp_s ?y ''local'' = JString ''y''"
    by (simp add: property_def)
  have k: "canister_key None ''SS'' = ''SS_CANISTER_ID''"
    by (simp add: canister_key_def)
  have b: "r ''SS_CANISTER_ID'' = Some (JString ''y'')"
    using bound [of "[(sharp_s, ?x)]" "''ss''" ?y "[]"]
    by (simp add: rt_sharp_s_upper k net py)
  have d: "dom r = {''SS_CANISTER_ID''}"
    using keys by (simp add: rt_sharp_s_upper k)
  from r d b
  show "\<exists>r. fst (readCanisterIds rt_sharp_s None) = Returns r \<and>
     dom r = {''SS_CANISTER_ID''} \<and>
     r ''SS_CANISTER_ID'' = Some (JString ''y'')"
    by (intro exI conjI)
qed

text \<open>
  Claim C2 as stated fails on a file with the canisters \<open>a\<close> and \<open>A\<close>. The entry of \<open>a\<close>
  for the local network is \<open>x\<close>, its key is \<open>A_CANISTER_ID\<close>, and the record binds that
  key to \<open>y\<close>, the entry of \<open>A\<close>.
\<close>

theorem readCanisterIds_case_clash:
  "fst (read_json rt_case_clash (canisterIdsJsonFile rt_case_clash)) = Returns case_clash \<and>
   Object_entries rt_case_clash case_clash =
     Returns [(''a'', JObject [(''local'', JString ''x'')]),
              (''A'', JObject [(''local'', JString ''y'')])] \<and>
   property rt_case_clash (JObject [(''local'', JString ''x'')]) (network rt_case_clash) =
     JString ''x'' \<and>
   canister_key None (toUpperCase rt_case_clash ''a'') = ''A_CANISTER_ID'' \<and>
   fst (readCanisterIds rt_case_clash None) = Returns [''A_CANISTER_ID'' \<mapsto> JString ''y'']"
  by (simp add: rt_case_clash_def case_clash_def case_clash_text_def run_defs)

text \<open>
  Claim C10, as amended. Let \<open>canister_ids.json\<close> parse to a mapping whose canister
  details are not \<open>null\<close>. If reading the current network's property of a canister's
  details gives \<open>undefined\<close>, and so it does for every later canister of the file whose
  name has the same upper-case form (by the runtime's \<open>toUpperCase\<close>), then the returned
  record holds that canister's key, bound to \<open>undefined\<close>, which is no string.
\<close>

theorem readCanisterIds_undefined_entry:
  assumes "fst (read_json rt (canisterIdsJsonFile rt)) = Returns config"
    and "Object_entries rt config = Returns es"
    and "\<forall>(n, d)\<in>set es. \<not> nullish d"
    and "es = xs @ (n, d) # ys"
    and "property rt d (network rt) = JUndefined"
    and "\<forall>(n', d')\<in>set ys. toUpperCase rt n' = toUpperCase rt n \<longrightarrow>
           property rt d' (network rt) = JUndefined"
  shows "\<exists>r. fst (readCanisterIds rt prefix) = Returns r \<and>
      r (canister_key prefix (toUpperCase rt n)) = Some JUndefined"
proof -
  let ?g = "\<lambda>x. (canister_key prefix (toUpperCase rt (fst x)), property rt (snd x) (network rt))"
  let ?k = "canister_key prefix (toUpperCase rt n)"
  have r: "fst (readCanisterIds rt prefix) = Returns (map_of (rev (map ?g es)))"
    using assms(1,2,3) by (rule readCanisterIds_result)
  have "map_of (rev (map ?g es)) ?k = Some JUndefined"
  proof (cases "map_of (rev (map ?g ys)) ?k")
    case None
    then show ?thesis by (simp add: assms(4,5) map_add_def rev_map)
  next
    case (Some v)
    then have "(?k, v) \<in> set (map ?g ys)" by (auto dest: map_of_SomeD)
    then obtain n' d' where "(n', d') \<in> set ys" "toUpperCase rt n' = toUpperCase rt n"
      "v = property rt d' (network rt)"
      by (auto simp: canister_key_eq)
    with assms(6) have "v = JUndefined" by auto
    with Some show ?thesis by (simp add: assms(4) map_add_def rev_map)
  qed
  with r show ?thesis by blast
qed

text \<open>
  The file of two canisters with \<open>DFX_NETWORK=testnet\<close>: the details of \<open>backend\<close> have
  no \<open>testnet\<close> entry, and the record binds \<open>BACKEND_CANISTER_ID\<close> to \<open>undefined\<close>.
\<close>

theorem readCanisterIds_undefined_entry_witness:
  "network rt_testnet = ''testnet'' \<and>
   property rt_testnet (JObject [(''local'', JString ''bkyz2-fmaaa-aaaaa-qaaaq-cai'')]) ''testnet'' =
     JUndefined \<and>
   (\<exists>r. fst (readCanisterIds rt_testnet None) = Returns r \<and>
      r ''BACKEND_CANISTER_ID'' = Some JUndefined)"
proof -
  let ?b = "JObject [(''local'', JString ''bkyz2-fmaaa-aaaaa-qaaaq-cai'')]"
  let ?f = "JObject [(''local'', JString ''bd3sg-teaaa-aaaaa-qaaba-cai'')]"
  let ?es = "[(''backend'', ?b), (''frontend'', ?f)]"
  have net: "network rt_testnet = ''testnet''"
    by (simp add: rt_testnet_def node_def network_def)
  have shape: "\<forall>(n, d)\<in>set ?es. \<not> nullish d"
    by (simp add: nullish_def)
  have split: "?es = [] @ (''backend'', ?b) # [(''frontend'', ?f)]"
    by simp
  have none: "property rt_testnet ?b (network rt_testnet) = JUndefined"
    by (simp add: rt_testnet_def node_def network_def property_def)
  have later: "\<forall>(n', d')\<in>set [(''frontend'', ?f)].
      toUpperCase rt_testnet n' = toUpperCase rt_testnet ''backend'' \<longrightarrow>
      property rt_testnet d' (network rt_testnet) = JUndefined"
    by (simp add: rt_testnet_def node_def ascii_toUpperCase_def upper_char_def)
  from readCanisterIds_undefined_entry
    [OF rt_testnet_read_json two_canisters_entries shape split none later, of None]
  show ?thesis
    using net none
    by (simp add: canister_key_def rt_testnet_def node_def ascii_toUpperCase_def upper_char_def)
qed

text \<open>
  Claim C10 as stated fails on a file with the canisters \<open>a\<close> and \<open>A\<close>, where \<open>a\<close> has no
  entry for the local network and \<open>A\<close> has the entry \<open>x\<close>: the key of \<open>a\<close> is
  \<open>A_CANISTER_ID\<close>, and the record binds it to \<open>x\<close>, not to \<open>undefined\<close>.
\<close>

theorem readCanisterIds_no_entry_clash:
  "fst (read_json rt_no_entry_clash (canisterIdsJsonFile rt_no_entry_clash)) =
     Returns no_entry_clash \<and>
   Object_entries rt_no_entry_clash no_entry_clash =
     Returns [(''a'', JObject []), (''A'', JObject [(''local'', JString ''x'')])] \<and>
   property rt_no_entry_clash (JObject []) (network rt_no_entry_clash) = JUndefined \<and>
   canister_key None (toUpperCase rt_no_entry_clash ''a'') = ''A_CANISTER_ID'' \<and>
   fst (readCanisterIds rt_no_entry_clash None) = Returns [''A_CANISTER_ID'' \<mapsto> JString ''x'']"
  by (simp add: rt_no_entry_clash_def no_entry_clash_def no_entry_clash_text_def run_defs)

subsection \<open>The record of \<open>dfxCanisterIds\<close>\<close>

text \<open>
  Claim C9, as amended. Let the network be neither \<open>ic\<close> nor \<open>staging\<close>, so that dfx.json
  is parsed, and let its canisters have the declared shape. Then \<open>dfxCanisterIds\<close>
  returns a record whose keys are exactly the keys of the canisters whose \<open>remote\<close> is
  defined, a key being the prefix, the canister name with every hyphen replaced by an
  underscore and every apostrophe removed, in upper case as the runtime's \<open>toUpperCase\<close>
  makes it, and \<open>_CANISTER_ID\<close>; canisters without \<open>remote\<close> add nothing. The key of a canister with a \<open>remote\<close> is
  bound to its \<open>remote.id.local\<close> whenever no later canister with a \<open>remote\<close> has the
  same key (the last such canister decides otherwise).
\<close>

theorem dfxCanisterIds_record:
  assumes "\<not> array_includes [''ic'', ''staging''] (network rt)"
    and "fst (read_json rt (dfxJsonFile rt)) = Returns parsed"
    and "js_get rt parsed ''canisters'' = Returns canisters"
    and "Object_entries rt canisters = Returns es"
    and "\<forall>(n, d)\<in>set es. Details_shape rt d"
  shows "\<exists>r. fst (dfxCanisterIds rt prefix) = Returns r \<and>
      dom r = (\<lambda>(n, d). dfx_key rt prefix n) ` {(n, d). (n, d) \<in> set es \<and> has_remote rt d} \<and>
      (\<forall>xs n d ys.
         es = xs @ (n, d) # ys \<and> has_remote rt d \<and>
         (\<forall>(n', d')\<in>set ys. has_remote rt d' \<longrightarrow> dfx_key rt prefix n' \<noteq> dfx_key rt prefix n) \<longrightarrow>
         r (dfx_key rt prefix n) = Some (remote_id_local rt d))"
proof -
  let ?g = "\<lambda>x. (dfx_key rt prefix (fst x), remote_id_local rt (snd x))"
  let ?P = "\<lambda>x. has_remote rt (snd x)"
  let ?r = "map_of (rev (map ?g (filter ?P es)))"
  from assms(5) have "\<forall>x\<in>set es. Details_shape rt (snd x)" by auto
  from dfxCanisterIds_try_result [OF assms(2,3,4) this, of prefix]
  have "fst (dfxCanisterIds rt prefix) = Returns ?r"
    using assms(1) by (simp add: dfxCanisterIds_Returns)
  moreover have
    "dom ?r = (\<lambda>(n, d). dfx_key rt prefix n) ` {(n, d). (n, d) \<in> set es \<and> has_remote rt d}"
    by (force simp: dom_map_of_rev image_image)
  moreover have "?r (dfx_key rt prefix n) = Some (remote_id_local rt d)"
    if "es = xs @ (n, d) # ys" and "has_remote rt d"
      and "\<forall>(n', d')\<in>set ys. has_remote rt d' \<longrightarrow> dfx_key rt prefix n' \<noteq> dfx_key rt prefix n"
    for xs n d ys
  proof (rule map_of_rev_last)
    show "map ?g (filter ?P es) =
        map ?g (filter ?P xs) @ (dfx_key rt prefix n, remote_id_local rt d) # map ?g (filter ?P ys)"
      using that(1,2) by simp
    show "dfx_key rt prefix n \<notin> fst ` set (map ?g (filter ?P ys))"
      using that(3) by (auto simp: image_iff)
  qed
  ultimately show ?thesis by blast
qed

text \<open>
  A dfx.json with the remote canister \<open>internet-identity\<close> and the project's own
  \<open>frontend\<close>, read with the prefix \<open>VITE_\<close>: one key, with the hyphen turned into an
  underscore, bound to the local identifier of the remote canister.
\<close>

theorem dfxCanisterIds_record_witness:
  "\<exists>r. fst (dfxCanisterIds rt_one_remote (Some ''VITE_'')) = Returns r \<and>
     dom r = {''VITE_INTERNET_IDENTITY_CANISTER_ID''} \<and>
     r ''VITE_INTERNET_IDENTITY_CANISTER_ID'' = Some (JString ''be2us-64aaa-aaaaa-qaabq-cai'')"
proof -
  let ?ii = "JObject [(''remote'',
                    JObject [(''id'',
                      JObject [(''ic'', JString ''rdmx6-jaaaa-aaaaa-aaadq-cai''),
                               (''local'', JString ''be2us-64aaa-aaaaa-qaabq-cai'')])])]"
  let ?fe = "JObject [(''type'', JString ''assets'')]"
  let ?es = "[(''internet-identity'', ?ii), (''frontend'', ?fe)]"
  have canisters: "js_get rt_one_remote one_remote ''canisters'' = Returns (JObject ?es)"
    by (simp add: one_remote_def js_get_def nullish_def property_def)
  have entries: "Object_entries rt_one_remote (JObject ?es) = Returns ?es"
    by (simp add: Object_entries_def nullish_def)
  have rem: "has_remote rt_one_remote ?ii" "\<not> has_remote rt_one_remote ?fe"
    by (simp_all add: has_remote_def property_def rt_one_remote_def node_def)
  have shape: "\<forall>(n, d)\<in>set ?es. Details_shape rt_one_remote d"
    by (simp add: Details_shape_def rem) (simp add: nullish_def property_def)
  from dfxCanisterIds_record
      [OF rt_one_remote_network rt_one_remote_read_json canisters entries shape,
        of "Some ''VITE_''"]
  obtain r where all: "fst (dfxCanisterIds rt_one_remote (Some ''VITE_'')) = Returns r \<and>
      dom r = (\<lambda>(n, d). dfx_key rt_one_remote (Some ''VITE_'') n) `
                {(n, d). (n, d) \<in> set ?es \<and> has_remote rt_one_remote d} \<and>
      (\<forall>xs n d ys.
         ?es = xs @ (n, d) # ys \<and> has_remote rt_one_remote d \<and>
         (\<forall>(n', d')\<in>set ys. has_remote rt_one_remote d' \<longrightarrow>
            dfx_key rt_one_remote (Some ''VITE_'') n' \<noteq> dfx_key rt_one_remote (Some ''VITE_'') n) \<longrightarrow>
         r (dfx_key rt_one_remote (Some ''VITE_'') n) = Some (remote_id_local rt_one_remote d))" ..
  note r = all [THEN conjunct1]
  note keys = all [THEN conjunct2, THEN conjunct1]
  note bound = all [THEN conjunct2, THEN conjunct2, rule_format]
  have key: "dfx_key rt_one_remote (Some ''VITE_'') ''internet-identity'' = ''VITE_INTERNET_IDENTITY_CANISTER_ID''"
    by (simp add: dfx_key_def canister_key_def rt_one_remote_def node_def
        ascii_toUpperCase_def upper_char_def replaceAll_char_def removeAll_char_def)
  have val: "remote_id_local rt_one_remote ?ii = JString ''be2us-64aaa-aaaaa-qaabq-cai''"
    by (simp add: remote_id_local_def property_def)
  have which: "{(n, d). (n, d) \<in> set ?es \<and> has_remote rt_one_remote d} =
      {(''internet-identity'', ?ii)}"
    using rem by auto
  have b: "r ''VITE_INTERNET_IDENTITY_CANISTER_ID'' = Some (JString ''be2us-64aaa-aaaaa-qaabq-cai'')"
    using bound [of "[]" "''internet-identity''" ?ii "[(''frontend'', ?fe)]"] rem
    by (simp add: key val)
  have d: "dom r = {''VITE_INTERNET_IDENTITY_CANISTER_ID''}"
    using keys by (simp only: which) (simp add: key)
  from r d b show ?thesis by (intro exI conjI)
qed

text \<open>
  Claim C9 as stated fails on a dfx.json with the remote canisters \<open>a-b\<close> and \<open>a_b\<close>.
  The \<open>remote.id.local\<close> of \<open>a-b\<close> is \<open>x\<close>, its key is \<open>A_B_CANISTER_ID\<close>, and the record
  binds that key to \<open>y\<close>, the \<open>remote.id.local\<close> of \<open>a_b\<close>.
\<close>

theorem dfxCanisterIds_hyphen_clash:
  "fst (read_json rt_hyphen_clash (dfxJsonFile rt_hyphen_clash)) = Returns hyphen_clash \<and>
   js_get rt_hyphen_clash hyphen_clash ''canisters'' =
     Returns (JObject
       [(''a-b'', JObject [(''remote'',
           JObject [(''id'', JObject [(''ic'', JString ''p''), (''local'', JString ''x'')])])]),
        (''a_b'', JObject [(''remote'',
           JObject [(''id'', JObject [(''ic'', JString ''q''), (''local'', JString ''y'')])])])]) \<and>
   has_remote rt_hyphen_clash (JObject [(''remote'',
           JObject [(''id'', JObject [(''ic'', JString ''p''), (''local'', JString ''x'')])])]) \<and>
   remote_id_local rt_hyphen_clash (JObject [(''remote'',
           JObject [(''id'', JObject [(''ic'', JString ''p''), (''local'', JString ''x'')])])]) =
     JString ''x'' \<and>
   dfx_key rt_hyphen_clash None ''a-b'' = ''A_B_CANISTER_ID'' \<and>
   fst (dfxCanisterIds rt_hyphen_clash None) = Returns [''A_B_CANISTER_ID'' \<mapsto> JString ''y'']"
  by (simp add: rt_hyphen_clash_def hyphen_clash_def hyphen_clash_text_def has_remote_def
      remote_id_local_def run_defs)

subsection \<open>What \<open>defineConfig\<close> hands to the bundler\<close>

text \<open>
  Claim C7. The callback of \<open>defineConfig\<close> returns. The new \<open>process.env\<close> is the old
  one, then \<open>loadEnv\<close>, then the \<open>VITE_\<close> mapping of \<open>readCanisterIds\<close>, then that of
  \<open>dfxCanisterIds\<close>, merged in this order, so it holds every key of the two mappings.
  Under \<open>define\<close>, \<open>process.env\<close> is the mapping of \<open>readCanisterIds\<close> without prefix,
  then that of \<open>dfxCanisterIds\<close>, then \<open>DFX_NETWORK\<close>: its keys are those of the two
  mappings and \<open>DFX_NETWORK\<close>, which is bound to the network.
\<close>

theorem defineConfig_injects:
  "\<exists>cfg env' t r d r0 d0.
     defineConfig rt process_env = (Returns (cfg, env'), t) \<and>
     fst (readCanisterIds rt (Some ''VITE_'')) = Returns r \<and>
     fst (dfxCanisterIds rt (Some ''VITE_'')) = Returns d \<and>
     env' = process_env ++ loadEnv rt (env_mode rt) (cwd rt) ++ r ++ d \<and>
     dom r \<union> dom d \<subseteq> dom env' \<and>
     fst (readCanisterIds rt None) = Returns r0 \<and>
     fst (dfxCanisterIds rt None) = Returns d0 \<and>
     define_process_env cfg = r0 ++ d0 ++ [''DFX_NETWORK'' \<mapsto> JString (network rt)] \<and>
     dom (define_process_env cfg) = dom r0 \<union> dom d0 \<union> {''DFX_NETWORK''} \<and>
     define_process_env cfg ''DFX_NETWORK'' = Some (JString (network rt))"
proof -
  obtain r t1 where r: "readCanisterIds rt (Some ''VITE_'') = (Returns r, t1)"
    using readCanisterIds_returns by blast
  obtain d t2 where d: "dfxCanisterIds rt (Some ''VITE_'') = (Returns d, t2)"
    using dfxCanisterIds_returns by blast
  obtain r0 t3 where r0: "readCanisterIds rt None = (Returns r0, t3)"
    using readCanisterIds_returns by blast
  obtain d0 t4 where d0: "dfxCanisterIds rt None = (Returns d0, t4)"
    using dfxCanisterIds_returns by blast
  show ?thesis
    by (auto simp: defineConfig_def io_bind_def console_log_def emit_def io_return_def Let_def
        r d r0 d0)
qed

text \<open>
  The project with both files, called with \<open>PATH\<close> in \<open>process.env\<close>: the variable
  stays, the three \<open>VITE_\<close> keys join it, and \<open>define\<close> gets the three keys without
  prefix and \<open>DFX_NETWORK\<close>.
\<close>

theorem defineConfig_injects_witness:
  "\<exists>cfg env' t.
     defineConfig rt_project [''PATH'' \<mapsto> JString ''/usr/bin''] = (Returns (cfg, env'), t) \<and>
     env' ''PATH'' = Some (JString ''/usr/bin'') \<and>
     env' ''VITE_BACKEND_CANISTER_ID'' = Some (JString ''bkyz2-fmaaa-aaaaa-qaaaq-cai'') \<and>
     env' ''VITE_FRONTEND_CANISTER_ID'' = Some (JString ''bd3sg-teaaa-aaaaa-qaaba-cai'') \<and>
     env' ''VITE_INTERNET_IDENTITY_CANISTER_ID'' = Some (JString ''be2us-64aaa-aaaaa-qaabq-cai'') \<and>
     define_process_env cfg ''BACKEND_CANISTER_ID'' = Some (JString ''bkyz2-fmaaa-aaaaa-qaaaq-cai'') \<and>
     define_process_env cfg ''FRONTEND_CANISTER_ID'' = Some (JString ''bd3sg-teaaa-aaaaa-qaaba-cai'') \<and>
     define_process_env cfg ''INTERNET_IDENTITY_CANISTER_ID'' =
       Some (JString ''be2us-64aaa-aaaaa-qaabq-cai'') \<and>
     define_process_env cfg ''DFX_NETWORK'' = Some (JString ''local'')"
proof -
  have net: "network rt_project = ''local''"
    by (simp add: rt_project_def node_def network_def)
  have env: "loadEnv rt_project (env_mode rt_project) (cwd rt_project) = Map.empty"
    by (simp add: rt_project_def node_def)
  from defineConfig_injects [of rt_project "[''PATH'' \<mapsto> JString ''/usr/bin'']"]
  obtain cfg env' t r d r0 d0
    where run: "defineConfig rt_project [''PATH'' \<mapsto> JString ''/usr/bin''] =
        (Returns (cfg, env'), t)"
      and r: "fst (readCanisterIds rt_project (Some ''VITE_'')) = Returns r"
      and d: "fst (dfxCanisterIds rt_project (Some ''VITE_'')) = Returns d"
      and env': "env' = [''PATH'' \<mapsto> JString ''/usr/bin''] ++
          loadEnv rt_project (env_mode rt_project) (cwd rt_project) ++ r ++ d"
      and r0: "fst (readCanisterIds rt_project None) = Returns r0"
      and d0: "fst (dfxCanisterIds rt_project None) = Returns d0"
      and dpe: "define_process_env cfg =
          r0 ++ d0 ++ [''DFX_NETWORK'' \<mapsto> JString (network rt_project)]"
    by (elim exE conjE) (rule that)
  from r d r0 d0 have maps:
    "r = [''VITE_BACKEND_CANISTER_ID'' \<mapsto> JString ''bkyz2-fmaaa-aaaaa-qaaaq-cai'',
          ''VITE_FRONTEND_CANISTER_ID'' \<mapsto> JString ''bd3sg-teaaa-aaaaa-qaaba-cai'']"
    "d = [''VITE_INTERNET_IDENTITY_CANISTER_ID'' \<mapsto> JString ''be2us-64aaa-aaaaa-qaabq-cai'']"
    "r0 = [''BACKEND_CANISTER_ID'' \<mapsto> JString ''bkyz2-fmaaa-aaaaa-qaaaq-cai'',
           ''FRONTEND_CANISTER_ID'' \<mapsto> JString ''bd3sg-teaaa-aaaaa-qaaba-cai'']"
    "d0 = [''INTERNET_IDENTITY_CANISTER_ID'' \<mapsto> JString ''be2us-64aaa-aaaaa-qaabq-cai'']"
    by (simp_all add: rt_project_readCanisterIds rt_project_dfxCanisterIds canister_key_def)
  have "env' ''PATH'' = Some (JString ''/usr/bin'')"
    and "env' ''VITE_BACKEND_CANISTER_ID'' = Some (JString ''bkyz2-fmaaa-aaaaa-qaaaq-cai'')"
    and "env' ''VITE_FRONTEND_CANISTER_ID'' = Some (JString ''bd3sg-teaaa-aaaaa-qaaba-cai'')"
    and "env' ''VITE_INTERNET_IDENTITY_CANISTER_ID'' = Some (JString ''be2us-64aaa-aaaaa-qaabq-cai'')"
    and "define_process_env cfg ''BACKEND_CANISTER_ID'' = Some (JString ''bkyz2-fmaaa-aaaaa-qaaaq-cai'')"
    and "define_process_env cfg ''FRONTEND_CANISTER_ID'' = Some (JString ''bd3sg-teaaa-aaaaa-qaaba-cai'')"
    and "define_process_env cfg ''INTERNET_IDENTITY_CANISTER_ID'' =
       Some (JString ''be2us-64aaa-aaaaa-qaabq-cai'')"
    and "define_process_env cfg ''DFX_NETWORK'' = Some (JString ''local'')"
    by (simp_all add: env' dpe maps net env map_add_def)
  with run show ?thesis by (intro exI conjI)
qed

end
